theory Spec2Isabelle
  imports Main
begin

section \<open>Python values, strings and errors\<close>

text \<open>
  The two orchestrators of the repository, \<^verbatim>\<open>chain.py\<close> (sequential mode) and
  \<^verbatim>\<open>acp_crew.py\<close> (discovery mode), are embedded here. A Python \<^verbatim>\<open>str\<close> is a
  \<^typ>\<open>string\<close>, one \<^typ>\<open>char\<close> standing for one code point below 256. A context
  dictionary is a map from keys to values; the values are the two shapes that
  \<^verbatim>\<open>DEFAULT_CONTEXT\<close> holds, a string and a list of strings. Every \<^verbatim>\<open>raise\<close> is a
  value of type \<open>error\<close> on the left of a sum.
\<close>

datatype pyval = PStr string | PList "string list"

type_synonym ctx = "string \<rightharpoonup> pyval"

datatype error =
    KeyError string
  | ValueError string
  | RemoteInvocationError string
  | FileExistsError string
  | FileNotFoundError string
  | IsADirectoryError string
  | PermissionError string

definition nl :: string where
  "nl = [CHR 0x0A]"

definition dquote :: string where
  "dquote = [CHR 0x22]"

text \<open>\<^verbatim>\<open>sep.join(xs)\<close> for a list of strings.\<close>

fun py_join :: "string \<Rightarrow> string list \<Rightarrow> string" where
  "py_join sep [] = []"
| "py_join sep [x] = x"
| "py_join sep (x # y # ys) = x @ sep @ py_join sep (y # ys)"

text \<open>
  \<^verbatim>\<open>sep.join(v)\<close> for a context value: a list is joined as it is, a string is
  iterated character by character.
\<close>

fun py_join_val :: "string \<Rightarrow> pyval \<Rightarrow> string" where
  "py_join_val sep (PList xs) = py_join sep xs"
| "py_join_val sep (PStr s) = py_join sep (map (\<lambda>c. [c]) s)"

text \<open>\<^verbatim>\<open>str.isspace\<close> on one code point below 256, and \<^verbatim>\<open>str.strip()\<close>.\<close>

definition py_isspace :: "char \<Rightarrow> bool" where
  "py_isspace c =
     (let n = (of_char c :: nat)
      in (9 \<le> n \<and> n \<le> 13) \<or> (28 \<le> n \<and> n \<le> 32) \<or> n = 133 \<or> n = 160)"

definition py_strip :: "string \<Rightarrow> string" where
  "py_strip s = rev (dropWhile py_isspace (rev (dropWhile py_isspace s)))"

text \<open>
  \<^verbatim>\<open>repr\<close> of a string and \<^verbatim>\<open>str\<close> of a context value, which is what an f-string
  interpolates: a string as it is, a list as the bracketed \<^verbatim>\<open>repr\<close> of its items.
\<close>

definition hex_digit :: "nat \<Rightarrow> char" where
  "hex_digit n = ''0123456789abcdef'' ! (n mod 16)"

definition py_repr_char :: "char \<Rightarrow> char \<Rightarrow> string" where
  "py_repr_char q c =
     (let n = (of_char c :: nat)
      in if c = q \<or> c = CHR 0x5C then [CHR 0x5C, c]
         else if c = CHR 0x09 then [CHR 0x5C, CHR ''t'']
         else if c = CHR 0x0A then [CHR 0x5C, CHR ''n'']
         else if c = CHR 0x0D then [CHR 0x5C, CHR ''r'']
         else if n < 32 \<or> n = 127 \<or> (128 \<le> n \<and> n \<le> 160) \<or> n = 173
           then [CHR 0x5C, CHR ''x'', hex_digit (n div 16), hex_digit n]
         else [c])"

definition py_repr :: "string \<Rightarrow> string" where
  "py_repr s =
     (let q = (if CHR 0x27 \<in> set s \<and> CHR 0x22 \<notin> set s then CHR 0x22 else CHR 0x27)
      in [q] @ concat (map (py_repr_char q) s) @ [q])"

fun py_str :: "pyval \<Rightarrow> string" where
  "py_str (PStr s) = s"
| "py_str (PList xs) = ''['' @ py_join '', '' (map py_repr xs) @ '']''"

text \<open>\<^verbatim>\<open>d[k]\<close>: a missing key raises \<^verbatim>\<open>KeyError(k)\<close>.\<close>

definition getitem :: "ctx \<Rightarrow> string \<Rightarrow> error + pyval" where
  "getitem d k = (case d k of None \<Rightarrow> Inl (KeyError k) | Some v \<Rightarrow> Inr v)"

text \<open>Sequencing of two computations that may raise.\<close>

definition bindE :: "error + 'a \<Rightarrow> ('a \<Rightarrow> error + 'b) \<Rightarrow> error + 'b" where
  "bindE r f = (case r of Inl e \<Rightarrow> Inl e | Inr v \<Rightarrow> f v)"

text \<open>\<^verbatim>\<open>specific_request or default\<close>: \<^verbatim>\<open>None\<close> and the empty string are both falsy.\<close>

definition py_or :: "string option \<Rightarrow> string \<Rightarrow> string" where
  "py_or req d = (case req of None \<Rightarrow> d | Some s \<Rightarrow> if s = [] then d else s)"

section \<open>Configuration and the merged context\<close>

definition PLANNER_SERVER_URL :: string where
  "PLANNER_SERVER_URL = ''http://localhost:8000''"

definition WRITER_SERVER_URL :: string where
  "WRITER_SERVER_URL = ''http://localhost:8001''"

definition DEFAULT_CONTEXT :: ctx where
  "DEFAULT_CONTEXT =
     [''company_type'' \<mapsto> PStr ''AI startup'',
      ''industry'' \<mapsto> PStr ''Marketing Technology'',
      ''target_audience'' \<mapsto>
         PStr ''Marketing professionals, business owners, and growth teams'',
      ''value_proposition'' \<mapsto>
         PStr ''AI-powered marketing optimization and content creation'',
      ''key_benefits'' \<mapsto>
         PList [''Automated content generation'', ''SEO optimization'',
                ''Audience targeting'', ''Performance analytics'']]"

text \<open>
  \<^verbatim>\<open>{**config.DEFAULT_CONTEXT, **(company_context or {})}\<close>, the same line in both
  orchestrators. \<^verbatim>\<open>None\<close> and the empty dictionary both contribute nothing.
\<close>

definition merge_context :: "ctx option \<Rightarrow> ctx" where
  "merge_context company_context =
     DEFAULT_CONTEXT ++ (case company_context of None \<Rightarrow> Map.empty | Some c \<Rightarrow> c)"

section \<open>Prompt builders\<close>

definition planner_default_request :: string where
  "planner_default_request =
     ''Create a comprehensive marketing strategy to increase brand awareness and drive customer acquisition''"

definition planner_requirements :: "string list" where
  "planner_requirements =
     [''REQUIREMENTS:'',
      ''1. Research current marketing trends in the AI/tech industry'',
      ''2. Identify target audience segments and their pain points'',
      ''3. Develop a multi-channel marketing strategy'',
      ''4. Include specific tactics for:'',
      ''   - Content marketing'',
      ''   - Social media'',
      ''   - SEO optimization'',
      ''   - Lead generation'',
      ''   - Customer acquisition'',
      ''5. Provide measurable KPIs and success metrics'',
      ''6. Include budget allocation recommendations'',
      ''7. Timeline for implementation'']"

definition output_format :: "string list" where
  "output_format =
     [''OUTPUT FORMAT:'',
      ''- Executive Summary'',
      ''- Market Analysis'',
      ''- Target Audience Analysis'',
      ''- Marketing Strategy Overview'',
      ''- Channel-Specific Tactics'',
      ''- Implementation Timeline'',
      ''- Budget Allocation'',
      ''- Success Metrics & KPIs'',
      ''- Risk Assessment'']"

text \<open>
  \<^verbatim>\<open>create_planner_input\<close> of \<^verbatim>\<open>chain.py\<close>. The f-string evaluates its subscripts
  from left to right, so the first absent key is the one the \<^verbatim>\<open>KeyError\<close> names.
  The template is the list of its lines, the first and the last being empty.
\<close>

definition create_planner_input :: "ctx \<Rightarrow> string option \<Rightarrow> error + string" where
  "create_planner_input context specific_request =
     bindE (getitem context ''company_type'') (\<lambda>ct1.
     bindE (getitem context ''industry'') (\<lambda>ind1.
     bindE (getitem context ''company_type'') (\<lambda>ct2.
     bindE (getitem context ''industry'') (\<lambda>ind2.
     bindE (getitem context ''target_audience'') (\<lambda>ta.
     bindE (getitem context ''value_proposition'') (\<lambda>vp.
     bindE (getitem context ''key_benefits'') (\<lambda>kb.
     Inr (py_strip (py_join nl
       (['''',
         ''Create a comprehensive marketing strategy for '' @ py_str ct1 @ '' in the ''
            @ py_str ind1 @ '' industry.'',
         '''',
         ''COMPANY CONTEXT:'',
         ''- Company Type: '' @ py_str ct2,
         ''- Industry: '' @ py_str ind2,
         ''- Target Audience: '' @ py_str ta,
         ''- Value Proposition: '' @ py_str vp,
         ''- Key Benefits: '' @ py_join_val '', '' kb,
         '''',
         ''SPECIFIC REQUEST: '' @ py_or specific_request planner_default_request,
         '''']
        @ planner_requirements @ [''''] @ output_format @ ['''']))))))))))"

definition blog_post_requirements :: "string list" where
  "blog_post_requirements =
     [''BLOG POST REQUIREMENTS:'',
      ''1. Create an engaging headline that includes relevant keywords'',
      ''2. Write a compelling introduction that hooks the reader'',
      ''3. Structure the content with clear headings and subheadings'',
      ''4. Include actionable insights and practical tips'',
      ''5. Optimize for SEO with relevant keywords naturally integrated'',
      ''6. Include a strong call-to-action'',
      ''7. Target length: 1000-1500 words'',
      ''8. Tone: Professional yet approachable'',
      ''9. Include relevant statistics and examples where appropriate'']"

definition writer_important :: "string list" where
  "writer_important =
     [''IMPORTANT: Write the blog post in clean markdown format, ready-to-publish. Do NOT include labels like ''
        @ dquote @ ''SEO-Optimized Headline:'' @ dquote @ '' or '' @ dquote
        @ ''Meta Description:'' @ dquote @ ''. '',
      ''Just write the actual blog post content with proper markdown formatting (headings, paragraphs, lists, etc.).'',
      ''Start directly with the main headline and content.'']"

text \<open>
  \<^verbatim>\<open>create_writer_input\<close> of \<^verbatim>\<open>chain.py\<close>: it reads three keys of the context only,
  and returns the template without stripping it.
\<close>

definition create_writer_input :: "string \<Rightarrow> ctx \<Rightarrow> error + string" where
  "create_writer_input marketing_plan context =
     bindE (getitem context ''company_type'') (\<lambda>ct.
     bindE (getitem context ''industry'') (\<lambda>ind.
     bindE (getitem context ''target_audience'') (\<lambda>ta.
     Inr (py_join nl
       (['''',
         ''Write a compelling, SEO-optimized blog post based on the following marketing strategy.'',
         '''',
         ''MARKETING STRATEGY:'',
         marketing_plan,
         '''',
         ''COMPANY CONTEXT:'',
         ''- Company: '' @ py_str ct,
         ''- Industry: '' @ py_str ind,
         ''- Target Audience: '' @ py_str ta,
         '''']
        @ blog_post_requirements @ [''''] @ writer_important @ [''''])))))"

definition orchestrator_default_request :: string where
  "orchestrator_default_request =
     ''Create a comprehensive marketing strategy to increase brand awareness and drive customer acquisition.''"

definition orchestrator_requirements :: "string list" where
  "orchestrator_requirements =
     [''REQUIREMENTS:'',
      ''- Research current marketing trends in the AI/tech industry.'',
      ''- Identify target audience segments and their pain points.'',
      ''- Develop a multi-channel marketing strategy.'',
      ''- Include specific tactics for:'',
      ''   - Content marketing'',
      ''   - Social media'',
      ''   - SEO optimization'',
      ''   - Lead generation'',
      ''   - Customer acquisition'']"

text \<open>\<^verbatim>\<open>format_input_for_acp_orchestrator\<close> of \<^verbatim>\<open>acp_crew.py\<close>.\<close>

definition format_input_for_acp_orchestrator :: "ctx \<Rightarrow> string option \<Rightarrow> error + string" where
  "format_input_for_acp_orchestrator context specific_request =
     bindE (getitem context ''company_type'') (\<lambda>ct1.
     bindE (getitem context ''industry'') (\<lambda>ind1.
     bindE (getitem context ''company_type'') (\<lambda>ct2.
     bindE (getitem context ''industry'') (\<lambda>ind2.
     bindE (getitem context ''target_audience'') (\<lambda>ta.
     bindE (getitem context ''value_proposition'') (\<lambda>vp.
     bindE (getitem context ''key_benefits'') (\<lambda>kb.
     Inr (py_strip (py_join nl
       (['''',
         ''Create a marketing blog post for '' @ py_str ct1 @ '' in the ''
            @ py_str ind1 @ '' industry.'',
         '''',
         ''COMPANY CONTEXT:'',
         ''- Company Type: '' @ py_str ct2,
         ''- Industry: '' @ py_str ind2,
         ''- Target Audience: '' @ py_str ta,
         ''- Value Proposition: '' @ py_str vp,
         ''- Key Benefits: '' @ py_join_val '', '' kb,
         '''',
         ''SPECIFIC REQUEST: '' @ py_or specific_request orchestrator_default_request,
         '''']
        @ orchestrator_requirements @ [''''] @ output_format @ ['''']))))))))))"

section \<open>Remote agents\<close>

text \<open>
  What \<^verbatim>\<open>run_sync\<close> returns: a run whose \<^verbatim>\<open>output\<close> is a list of messages, each a
  list of parts, each part carrying text. A client is the remote service seen from
  the workflow: given the agent's name and the input it answers with a run or raises.
  Every call that the workflow makes is logged, in order. The field \<^verbatim>\<open>output\<close> of a
  run is the selector \<open>run_output\<close>.
\<close>

datatype message_part = MessagePart (content: string)

datatype message = Message (parts: "message_part list")

datatype run = Run (run_output: "message list")

type_synonym client = "string \<Rightarrow> string \<Rightarrow> error + run"

record call =
  call_url :: string
  call_agent :: string
  call_input :: string

text \<open>
  The check that follows each \<^verbatim>\<open>run_sync\<close> in \<^verbatim>\<open>chain.py\<close>, written twice there
  with two messages:
  \<^verbatim>\<open>if not run.output or not run.output[0].parts: raise ValueError(msg)\<close>,
  then \<^verbatim>\<open>run.output[0].parts[0].content\<close>.
\<close>

definition first_part_content :: "string \<Rightarrow> run \<Rightarrow> error + string" where
  "first_part_content msg r =
     (case run_output r of
        [] \<Rightarrow> Inl (ValueError msg)
      | m # _ \<Rightarrow>
          (case parts m of
             [] \<Rightarrow> Inl (ValueError msg)
           | p # _ \<Rightarrow> Inr (content p)))"

section \<open>The file system\<close>

text \<open>
  The directories and the text files that exist, and the paths at which the system
  refuses to create or open for writing (a permission denied). Paths are relative to
  the working directory, which exists.
\<close>

record filesystem =
  fs_dirs :: "string set"
  fs_files :: "string \<rightharpoonup> string"
  fs_denied :: "string set"

definition parent_dir :: "string \<Rightarrow> string" where
  "parent_dir p =
     (if CHR ''/'' \<in> set p then rev (tl (dropWhile (\<lambda>c. c \<noteq> CHR ''/'') (rev p))) else [])"

text \<open>
  \<^verbatim>\<open>os.makedirs(d, exist_ok=True)\<close> for a name directly under the working
  directory, which is how the workflows call it.
\<close>

definition os_makedirs :: "filesystem \<Rightarrow> string \<Rightarrow> error + filesystem" where
  "os_makedirs fs d =
     (if d \<in> fs_dirs fs then Inr fs
      else if fs_files fs d \<noteq> None then Inl (FileExistsError d)
      else if d \<in> fs_denied fs then Inl (PermissionError d)
      else Inr (fs\<lparr>fs_dirs := insert d (fs_dirs fs)\<rparr>))"

text \<open>\<^verbatim>\<open>open(p, 'w', encoding='utf-8')\<close>: the file is created or truncated.\<close>

definition py_open_w :: "filesystem \<Rightarrow> string \<Rightarrow> error + filesystem" where
  "py_open_w fs p =
     (if parent_dir p \<noteq> [] \<and> parent_dir p \<notin> fs_dirs fs then Inl (FileNotFoundError p)
      else if p \<in> fs_dirs fs then Inl (IsADirectoryError p)
      else if p \<in> fs_denied fs then Inl (PermissionError p)
      else Inr (fs\<lparr>fs_files := (fs_files fs)(p \<mapsto> [])\<rparr>))"

text \<open>\<^verbatim>\<open>f.write(s)\<close> on the file opened at \<open>p\<close>: the text goes after what is there.\<close>

definition py_write :: "filesystem \<Rightarrow> string \<Rightarrow> string \<Rightarrow> filesystem" where
  "py_write fs p s =
     fs\<lparr>fs_files := (fs_files fs)(p \<mapsto> (case fs_files fs p of None \<Rightarrow> s | Some old \<Rightarrow> old @ s))\<rparr>"

text \<open>
  The \<^verbatim>\<open>with open(...) as f\<close> block of \<^verbatim>\<open>chain.py\<close>, which occurs twice with two file
  names, two headings and two bodies: four writes, the second and the third reading
  the context. An exception leaves on disk what was written before it.
\<close>

definition save_markdown ::
  "filesystem \<Rightarrow> string \<Rightarrow> string \<Rightarrow> ctx \<Rightarrow> string \<Rightarrow> (error + unit) \<times> filesystem" where
  "save_markdown fs filename heading context body =
     (case py_open_w fs filename of
        Inl e \<Rightarrow> (Inl e, fs)
      | Inr fs1 \<Rightarrow>
          (let fs2 = py_write fs1 filename (heading @ nl @ nl)
           in case getitem context ''company_type'' of
                Inl e \<Rightarrow> (Inl e, fs2)
              | Inr ct \<Rightarrow>
                  (let fs3 = py_write fs2 filename (''**Company:** '' @ py_str ct @ nl)
                   in case getitem context ''industry'' of
                        Inl e \<Rightarrow> (Inl e, fs3)
                      | Inr ind \<Rightarrow>
                          (let fs4 = py_write fs3 filename
                                       (''**Industry:** '' @ py_str ind @ nl @ nl)
                           in (Inr (), py_write fs4 filename body)))))"

section \<open>Sequential mode: \<^verbatim>\<open>chain.py\<close>\<close>

text \<open>
  The dictionary that the workflow returns, key by key; the key \<^verbatim>\<open>context\<close> is the
  field \<open>result_context\<close>. Where the source's variables \<^verbatim>\<open>marketing_plan\<close> and
  \<^verbatim>\<open>blog_content\<close> would clash with the fields, they are \<open>plan_text\<close> and
  \<open>blog_text\<close>.
\<close>

record workflow_result =
  marketing_plan :: string
  blog_content :: string
  result_context :: ctx
  status :: string
  files :: "string \<rightharpoonup> string"

text \<open>
  What a run leaves behind: the value returned or the exception raised, the file
  system, and the log of the remote calls.
\<close>

record 'a outcome =
  returned :: "error + 'a"
  fs_after :: filesystem
  calls :: "call list"

text \<open>Lines 87 to 119: the directory, the two files, the returned dictionary.\<close>

definition save_outputs ::
  "filesystem \<Rightarrow> ctx \<Rightarrow> string \<Rightarrow> string \<Rightarrow> (error + workflow_result) \<times> filesystem" where
  "save_outputs fs context plan_text blog_text =
     (let output_dir = ''marketing_outputs''
      in case os_makedirs fs output_dir of
           Inl e \<Rightarrow> (Inl e, fs)
         | Inr fs1 \<Rightarrow>
             (let plan_filename = output_dir @ ''/marketing_plan.md''
              in case save_markdown fs1 plan_filename ''# Marketing Plan'' context plan_text of
                   (Inl e, fs2) \<Rightarrow> (Inl e, fs2)
                 | (Inr _, fs2) \<Rightarrow>
                     (let blog_filename = output_dir @ ''/blog_post.md''
                      in case save_markdown fs2 blog_filename ''# Blog Post'' context blog_text of
                           (Inl e, fs3) \<Rightarrow> (Inl e, fs3)
                         | (Inr _, fs3) \<Rightarrow>
                             (Inr \<lparr>marketing_plan = plan_text,
                                   blog_content = blog_text,
                                   result_context = context,
                                   status = ''success'',
                                   files = [''marketing_plan'' \<mapsto> plan_filename,
                                            ''blog_post'' \<mapsto> blog_filename]\<rparr>,
                              fs3))))"

text \<open>Lines 71 to 119: the writer stage, entered with the plan text.\<close>

definition writing_phase ::
  "client \<Rightarrow> filesystem \<Rightarrow> ctx \<Rightarrow> call list \<Rightarrow> string \<Rightarrow> workflow_result outcome" where
  "writing_phase writer fs context calls1 plan_text =
     (case create_writer_input plan_text context of
        Inl e \<Rightarrow> \<lparr>returned = Inl e, fs_after = fs, calls = calls1\<rparr>
      | Inr writer_input \<Rightarrow>
          (let calls2 = calls1 @ [\<lparr>call_url = WRITER_SERVER_URL,
                                   call_agent = ''supervisor_agent'',
                                   call_input = writer_input\<rparr>]
           in case bindE (writer ''supervisor_agent'' writer_input)
                     (first_part_content ''No output received from blog writer'') of
                Inl e \<Rightarrow> \<lparr>returned = Inl e, fs_after = fs, calls = calls2\<rparr>
              | Inr blog_text \<Rightarrow>
                  (case save_outputs fs context plan_text blog_text of
                     (r, fs') \<Rightarrow> \<lparr>returned = r, fs_after = fs', calls = calls2\<rparr>)))"

text \<open>\<^verbatim>\<open>run_marketing_workflow\<close> of \<^verbatim>\<open>chain.py\<close>.\<close>

definition run_marketing_workflow ::
  "client \<Rightarrow> client \<Rightarrow> filesystem \<Rightarrow> ctx option \<Rightarrow> string option \<Rightarrow> workflow_result outcome" where
  "run_marketing_workflow planner writer fs company_context specific_request =
     (let context = merge_context company_context
      in case create_planner_input context specific_request of
           Inl e \<Rightarrow> \<lparr>returned = Inl e, fs_after = fs, calls = []\<rparr>
         | Inr planner_input \<Rightarrow>
             (let calls1 = [\<lparr>call_url = PLANNER_SERVER_URL,
                             call_agent = ''marketing_planner'',
                             call_input = planner_input\<rparr>]
              in case bindE (planner ''marketing_planner'' planner_input)
                        (first_part_content ''No output received from marketing planner'') of
                   Inl e \<Rightarrow> \<lparr>returned = Inl e, fs_after = fs, calls = calls1\<rparr>
                 | Inr plan_text \<Rightarrow> writing_phase writer fs context calls1 plan_text))"

section \<open>Discovery mode: \<^verbatim>\<open>acp_crew.py\<close>\<close>

text \<open>
  \<^verbatim>\<open>AgentCollection\<close> and \<^verbatim>\<open>ACPCallingAgent\<close> come from outside the repository's
  sources and are parameters: \<open>from_acp\<close> is what discovery answers, the list of
  pairs of an endpoint and an agent name, and \<open>acpagent_run\<close> is the calling agent,
  given the dictionary of the discovered agents and the prompt. The function ends
  without a \<^verbatim>\<open>return\<close> statement, so the value it returns is \<^verbatim>\<open>None\<close>. Both
  files name their entry point \<^verbatim>\<open>run_marketing_workflow\<close>; this one carries the
  suffix \<open>_acp\<close>.
\<close>

definition run_marketing_workflow_acp ::
  "error + (string \<times> string) list \<Rightarrow> ((string \<rightharpoonup> string) \<Rightarrow> string \<Rightarrow> error + string)
     \<Rightarrow> filesystem \<Rightarrow> ctx option \<Rightarrow> string option
     \<Rightarrow> (error + workflow_result option) \<times> filesystem" where
  "run_marketing_workflow_acp from_acp acpagent_run fs company_context specific_request =
     (let context = merge_context company_context
      in case from_acp of
           Inl e \<Rightarrow> (Inl e, fs)
         | Inr agents \<Rightarrow>
             (let acp_agents = map_of (rev (map (\<lambda>(client, name). (name, client)) agents))
              in case bindE (format_input_for_acp_orchestrator context specific_request)
                        (acpagent_run acp_agents) of
                   Inl e \<Rightarrow> (Inl e, fs)
                 | Inr result \<Rightarrow>
                     (let output_dir = ''marketing_outputs''
                      in case os_makedirs fs output_dir of
                           Inl e \<Rightarrow> (Inl e, fs)
                         | Inr fs1 \<Rightarrow>
                             (let blog_filename = output_dir @ ''/blog_post.md''
                              in case py_open_w fs1 blog_filename of
                                   Inl e \<Rightarrow> (Inl e, fs1)
                                 | Inr fs2 \<Rightarrow>
                                     (case getitem context ''company_type'' of
                                        Inl e \<Rightarrow> (Inl e, fs2)
                                      | Inr ct \<Rightarrow>
                                          (let fs3 = py_write fs2 blog_filename
                                                       (''**Company:** '' @ py_str ct @ nl)
                                           in case getitem context ''industry'' of
                                                Inl e \<Rightarrow> (Inl e, fs3)
                                              | Inr ind \<Rightarrow>
                                                  (let fs4 = py_write fs3 blog_filename
                                                               (''**Industry:** '' @ py_str ind @ nl @ nl)
                                                   in (Inr None, py_write fs4 blog_filename result))))))))"

section \<open>Vocabulary of the properties\<close>

text \<open>
  What the remote side answers at the two \<^verbatim>\<open>run_sync\<close> calls of \<^verbatim>\<open>chain.py\<close>: the
  planner to the prompt built from the merged context and the request, the writer to
  the prompt built from a plan text and the merged context.
\<close>

definition planner_reply :: "client \<Rightarrow> ctx option \<Rightarrow> string option \<Rightarrow> error + run" where
  "planner_reply planner company_context specific_request =
     bindE (create_planner_input (merge_context company_context) specific_request)
       (planner ''marketing_planner'')"

definition writer_reply :: "client \<Rightarrow> ctx option \<Rightarrow> string \<Rightarrow> error + run" where
  "writer_reply writer company_context plan_text =
     bindE (create_writer_input plan_text (merge_context company_context))
       (writer ''supervisor_agent'')"

text \<open>
  The condition \<^verbatim>\<open>not run.output or not run.output[0].parts\<close> as a predicate, and
  \<^verbatim>\<open>run.output[0].parts[0].content\<close>, which is meant for a run that passed it.
\<close>

definition empty_response :: "run \<Rightarrow> bool" where
  "empty_response r = (run_output r = [] \<or> parts (hd (run_output r)) = [])"

definition first_text :: "run \<Rightarrow> string" where
  "first_text r = content (hd (parts (hd (run_output r))))"

definition planner_call :: "string \<Rightarrow> call" where
  "planner_call pin =
     \<lparr>call_url = PLANNER_SERVER_URL, call_agent = ''marketing_planner'', call_input = pin\<rparr>"

definition writer_call :: "string \<Rightarrow> call" where
  "writer_call win =
     \<lparr>call_url = WRITER_SERVER_URL, call_agent = ''supervisor_agent'', call_input = win\<rparr>"

text \<open>The two output files, and the text that a saved file holds.\<close>

definition plan_path :: string where
  "plan_path = ''marketing_outputs/marketing_plan.md''"

definition blog_path :: string where
  "blog_path = ''marketing_outputs/blog_post.md''"

definition file_text :: "string \<Rightarrow> pyval \<Rightarrow> pyval \<Rightarrow> string \<Rightarrow> string" where
  "file_text heading ct ind body =
     heading @ nl @ nl @ ''**Company:** '' @ py_str ct @ nl
       @ ''**Industry:** '' @ py_str ind @ nl @ nl @ body"

text \<open>When the file system lets a file be opened for writing, a directory be made,
  and the three steps of the sequential workflow go through.\<close>

definition can_open :: "filesystem \<Rightarrow> string \<Rightarrow> bool" where
  "can_open fs p = ((parent_dir p = [] \<or> parent_dir p \<in> fs_dirs fs)
                     \<and> p \<notin> fs_dirs fs \<and> p \<notin> fs_denied fs)"

definition can_makedirs :: "filesystem \<Rightarrow> string \<Rightarrow> bool" where
  "can_makedirs fs d = (d \<in> fs_dirs fs \<or> (fs_files fs d = None \<and> d \<notin> fs_denied fs))"

definition outputs_writable :: "filesystem \<Rightarrow> bool" where
  "outputs_writable fs =
     (can_makedirs fs ''marketing_outputs''
      \<and> plan_path \<notin> fs_dirs fs \<and> plan_path \<notin> fs_denied fs
      \<and> blog_path \<notin> fs_dirs fs \<and> blog_path \<notin> fs_denied fs)"

text \<open>The required fields that a context lacks, in the order of the list given.\<close>

definition missing_fields :: "ctx \<Rightarrow> string list \<Rightarrow> string list" where
  "missing_fields c ks = filter (\<lambda>k. c k = None) ks"

definition required_fields :: "string list" where
  "required_fields =
     [''company_type'', ''industry'', ''target_audience'', ''value_proposition'',
      ''key_benefits'']"

definition writer_fields :: "string list" where
  "writer_fields = [''company_type'', ''industry'', ''target_audience'']"

section \<open>Test doubles\<close>

text \<open>
  A remote stub that answers every call with one message of one part, one whose
  answer has no output, one that refuses the connection; an empty working directory,
  and one in which the blog file may not be written; a discovery answer and a calling
  agent that returns a fixed text.
\<close>

definition stub_client :: "string \<Rightarrow> client" where
  "stub_client text = (\<lambda>agent input. Inr (Run [Message [MessagePart text]]))"

definition empty_output_client :: client where
  "empty_output_client = (\<lambda>agent input. Inr (Run []))"

definition refusing_client :: client where
  "refusing_client = (\<lambda>agent input. Inl (RemoteInvocationError ''connection refused''))"

definition fs_empty :: filesystem where
  "fs_empty = \<lparr>fs_dirs = {}, fs_files = Map.empty, fs_denied = {}\<rparr>"

definition fs_blog_denied :: filesystem where
  "fs_blog_denied = \<lparr>fs_dirs = {}, fs_files = Map.empty, fs_denied = {blog_path}\<rparr>"

definition fs_with_output_dir :: filesystem where
  "fs_with_output_dir =
     \<lparr>fs_dirs = {''marketing_outputs''}, fs_files = Map.empty, fs_denied = {}\<rparr>"

definition stub_discovery :: "error + (string \<times> string) list" where
  "stub_discovery =
     Inr [(PLANNER_SERVER_URL, ''marketing_planner''), (WRITER_SERVER_URL, ''supervisor_agent'')]"

definition stub_calling_agent :: "string \<Rightarrow> (string \<rightharpoonup> string) \<Rightarrow> string \<Rightarrow> error + string" where
  "stub_calling_agent text = (\<lambda>acp_agents input. Inr text)"

definition context_without_value_proposition :: ctx where
  "context_without_value_proposition = DEFAULT_CONTEXT(''value_proposition'' := None)"

definition context_without_industry :: ctx where
  "context_without_industry = DEFAULT_CONTEXT(''industry'' := None)"

section \<open>Basic facts\<close>

lemma getitem_Some: "d k = Some v \<Longrightarrow> getitem d k = Inr v"
  by (simp add: getitem_def)

lemma getitem_None: "d k = None \<Longrightarrow> getitem d k = Inl (KeyError k)"
  by (simp add: getitem_def)

lemma bindE_Inl: "bindE (Inl e) f = Inl e"
  by (simp add: bindE_def)

lemma bindE_Inr: "bindE (Inr v) f = f v"
  by (simp add: bindE_def)

lemma default_lookup:
  "DEFAULT_CONTEXT ''company_type'' = Some (PStr ''AI startup'')"
  "DEFAULT_CONTEXT ''industry'' = Some (PStr ''Marketing Technology'')"
  "DEFAULT_CONTEXT ''target_audience'' =
     Some (PStr ''Marketing professionals, business owners, and growth teams'')"
  "DEFAULT_CONTEXT ''value_proposition'' =
     Some (PStr ''AI-powered marketing optimization and content creation'')"
  "DEFAULT_CONTEXT ''key_benefits'' =
     Some (PList [''Automated content generation'', ''SEO optimization'',
                  ''Audience targeting'', ''Performance analytics''])"
  by (simp_all add: DEFAULT_CONTEXT_def)

lemma merge_context_lookup:
  "merge_context cc k =
     (case cc of None \<Rightarrow> DEFAULT_CONTEXT k
      | Some c \<Rightarrow> (case c k of None \<Rightarrow> DEFAULT_CONTEXT k | Some v \<Rightarrow> Some v))"
  by (simp add: merge_context_def map_add_def split: option.splits)

lemma merge_context_required:
  "k \<in> set required_fields \<Longrightarrow> \<exists>v. merge_context cc k = Some v"
  by (auto simp add: required_fields_def merge_context_lookup default_lookup
           split: option.splits)

lemma planner_input_keys:
  assumes "c ''company_type'' = Some a" "c ''industry'' = Some b"
    "c ''target_audience'' = Some t" "c ''value_proposition'' = Some d"
    "c ''key_benefits'' = Some e"
  shows "\<exists>pin. create_planner_input c req = Inr pin"
  using assms by (simp add: create_planner_input_def bindE_Inr getitem_Some)

lemma writer_input_keys:
  assumes "c ''company_type'' = Some a" "c ''industry'' = Some b"
    "c ''target_audience'' = Some t"
  shows "\<exists>win. create_writer_input plan c = Inr win"
  using assms by (simp add: create_writer_input_def bindE_Inr getitem_Some)

lemma orchestrator_input_keys:
  assumes "c ''company_type'' = Some a" "c ''industry'' = Some b"
    "c ''target_audience'' = Some t" "c ''value_proposition'' = Some d"
    "c ''key_benefits'' = Some e"
  shows "\<exists>p. format_input_for_acp_orchestrator c req = Inr p"
  using assms by (simp add: format_input_for_acp_orchestrator_def bindE_Inr getitem_Some)

lemma merged_keys:
  obtains a b t d e where
    "merge_context cc ''company_type'' = Some a" "merge_context cc ''industry'' = Some b"
    "merge_context cc ''target_audience'' = Some t"
    "merge_context cc ''value_proposition'' = Some d"
    "merge_context cc ''key_benefits'' = Some e"
proof -
  have "\<exists>v. merge_context cc ''company_type'' = Some v" "\<exists>v. merge_context cc ''industry'' = Some v"
    "\<exists>v. merge_context cc ''target_audience'' = Some v"
    "\<exists>v. merge_context cc ''value_proposition'' = Some v"
    "\<exists>v. merge_context cc ''key_benefits'' = Some v"
    by (simp_all add: merge_context_required required_fields_def)
  then show thesis using that by blast
qed

lemma planner_input_total: "\<exists>pin. create_planner_input (merge_context cc) req = Inr pin"
  using merged_keys [of cc] planner_input_keys by metis

lemma writer_input_total: "\<exists>win. create_writer_input plan (merge_context cc) = Inr win"
  using merged_keys [of cc] writer_input_keys by metis

lemma orchestrator_input_total:
  "\<exists>p. format_input_for_acp_orchestrator (merge_context cc) req = Inr p"
  using merged_keys [of cc] orchestrator_input_keys by metis

lemma default_requests_differ:
  "orchestrator_default_request = planner_default_request @ ''.''"
  by (simp add: orchestrator_default_request_def planner_default_request_def)

subsection \<open>The validation of a response\<close>

lemma first_part_content_empty:
  "empty_response r \<Longrightarrow> first_part_content msg r = Inl (ValueError msg)"
  by (auto simp add: empty_response_def first_part_content_def split: list.splits)

lemma first_part_content_text:
  "\<not> empty_response r \<Longrightarrow> first_part_content msg r = Inr (first_text r)"
  by (auto simp add: empty_response_def first_part_content_def first_text_def
           split: list.splits)

subsection \<open>The paths through the sequential workflow\<close>

lemma run_planner_raises:
  assumes "planner_reply planner cc req = Inl e"
  shows "\<exists>pin. run_marketing_workflow planner writer fs cc req =
           \<lparr>returned = Inl e, fs_after = fs, calls = [planner_call pin]\<rparr>"
proof -
  obtain pin where pin: "create_planner_input (merge_context cc) req = Inr pin"
    using planner_input_total by blast
  have "planner ''marketing_planner'' pin = Inl e"
    using assms by (simp add: planner_reply_def pin bindE_Inr)
  then have "run_marketing_workflow planner writer fs cc req =
           \<lparr>returned = Inl e, fs_after = fs, calls = [planner_call pin]\<rparr>"
    by (simp add: run_marketing_workflow_def pin planner_call_def bindE_Inl)
  then show ?thesis ..
qed

lemma run_planner_empty:
  assumes "planner_reply planner cc req = Inr r" "empty_response r"
  shows "\<exists>pin. run_marketing_workflow planner writer fs cc req =
           \<lparr>returned = Inl (ValueError ''No output received from marketing planner''),
            fs_after = fs, calls = [planner_call pin]\<rparr>"
proof -
  obtain pin where pin: "create_planner_input (merge_context cc) req = Inr pin"
    using planner_input_total by blast
  have "planner ''marketing_planner'' pin = Inr r"
    using assms(1) by (simp add: planner_reply_def pin bindE_Inr)
  then have "run_marketing_workflow planner writer fs cc req =
           \<lparr>returned = Inl (ValueError ''No output received from marketing planner''),
            fs_after = fs, calls = [planner_call pin]\<rparr>"
    using assms(2)
    by (simp add: run_marketing_workflow_def pin planner_call_def bindE_Inr
          first_part_content_empty)
  then show ?thesis ..
qed

lemma run_planner_text:
  assumes "planner_reply planner cc req = Inr r" "\<not> empty_response r"
  shows "\<exists>pin. run_marketing_workflow planner writer fs cc req =
           writing_phase writer fs (merge_context cc) [planner_call pin] (first_text r)"
proof -
  obtain pin where pin: "create_planner_input (merge_context cc) req = Inr pin"
    using planner_input_total by blast
  have "planner ''marketing_planner'' pin = Inr r"
    using assms(1) by (simp add: planner_reply_def pin bindE_Inr)
  then have "run_marketing_workflow planner writer fs cc req =
           writing_phase writer fs (merge_context cc) [planner_call pin] (first_text r)"
    using assms(2)
    by (simp add: run_marketing_workflow_def pin planner_call_def bindE_Inr
          first_part_content_text)
  then show ?thesis ..
qed

lemma writing_phase_raises:
  assumes "writer_reply writer cc plan = Inl e"
  shows "\<exists>win. writing_phase writer fs (merge_context cc) cs plan =
           \<lparr>returned = Inl e, fs_after = fs, calls = cs @ [writer_call win]\<rparr>"
proof -
  obtain win where win: "create_writer_input plan (merge_context cc) = Inr win"
    using writer_input_total by blast
  have "writer ''supervisor_agent'' win = Inl e"
    using assms by (simp add: writer_reply_def win bindE_Inr)
  then have "writing_phase writer fs (merge_context cc) cs plan =
           \<lparr>returned = Inl e, fs_after = fs, calls = cs @ [writer_call win]\<rparr>"
    by (simp add: writing_phase_def win writer_call_def bindE_Inl)
  then show ?thesis ..
qed

lemma writing_phase_empty:
  assumes "writer_reply writer cc plan = Inr r" "empty_response r"
  shows "\<exists>win. writing_phase writer fs (merge_context cc) cs plan =
           \<lparr>returned = Inl (ValueError ''No output received from blog writer''),
            fs_after = fs, calls = cs @ [writer_call win]\<rparr>"
proof -
  obtain win where win: "create_writer_input plan (merge_context cc) = Inr win"
    using writer_input_total by blast
  have "writer ''supervisor_agent'' win = Inr r"
    using assms(1) by (simp add: writer_reply_def win bindE_Inr)
  then have "writing_phase writer fs (merge_context cc) cs plan =
           \<lparr>returned = Inl (ValueError ''No output received from blog writer''),
            fs_after = fs, calls = cs @ [writer_call win]\<rparr>"
    using assms(2)
    by (simp add: writing_phase_def win writer_call_def bindE_Inr first_part_content_empty)
  then show ?thesis ..
qed

lemma writing_phase_text:
  assumes "writer_reply writer cc plan = Inr r" "\<not> empty_response r"
  shows "\<exists>win. writing_phase writer fs (merge_context cc) cs plan =
           \<lparr>returned = fst (save_outputs fs (merge_context cc) plan (first_text r)),
            fs_after = snd (save_outputs fs (merge_context cc) plan (first_text r)),
            calls = cs @ [writer_call win]\<rparr>"
proof -
  obtain win where win: "create_writer_input plan (merge_context cc) = Inr win"
    using writer_input_total by blast
  have "writer ''supervisor_agent'' win = Inr r"
    using assms(1) by (simp add: writer_reply_def win bindE_Inr)
  then have "writing_phase writer fs (merge_context cc) cs plan =
           \<lparr>returned = fst (save_outputs fs (merge_context cc) plan (first_text r)),
            fs_after = snd (save_outputs fs (merge_context cc) plan (first_text r)),
            calls = cs @ [writer_call win]\<rparr>"
    using assms(2)
    by (simp add: writing_phase_def win writer_call_def bindE_Inr first_part_content_text
             split: prod.splits)
  then show ?thesis ..
qed

text \<open>The five ways a run can go, put together.\<close>

lemma run_writer_raises:
  assumes "planner_reply planner cc req = Inr r1" "\<not> empty_response r1"
    "writer_reply writer cc (first_text r1) = Inl e"
  shows "\<exists>pin win. run_marketing_workflow planner writer fs cc req =
           \<lparr>returned = Inl e, fs_after = fs, calls = [planner_call pin, writer_call win]\<rparr>"
  using run_planner_text [OF assms(1,2), of writer fs]
        writing_phase_raises [OF assms(3), of fs]
  by (metis append_Cons append_Nil)

lemma run_writer_empty:
  assumes "planner_reply planner cc req = Inr r1" "\<not> empty_response r1"
    "writer_reply writer cc (first_text r1) = Inr r2" "empty_response r2"
  shows "\<exists>pin win. run_marketing_workflow planner writer fs cc req =
           \<lparr>returned = Inl (ValueError ''No output received from blog writer''),
            fs_after = fs, calls = [planner_call pin, writer_call win]\<rparr>"
  using run_planner_text [OF assms(1,2), of writer fs]
        writing_phase_empty [OF assms(3,4), of fs]
  by (metis append_Cons append_Nil)

lemma run_both_texts:
  assumes "planner_reply planner cc req = Inr r1" "\<not> empty_response r1"
    "writer_reply writer cc (first_text r1) = Inr r2" "\<not> empty_response r2"
  shows "\<exists>pin win. run_marketing_workflow planner writer fs cc req =
           \<lparr>returned = fst (save_outputs fs (merge_context cc) (first_text r1) (first_text r2)),
            fs_after = snd (save_outputs fs (merge_context cc) (first_text r1) (first_text r2)),
            calls = [planner_call pin, writer_call win]\<rparr>"
  using run_planner_text [OF assms(1,2), of writer fs]
        writing_phase_text [OF assms(3,4), of fs]
  by (metis append_Cons append_Nil)

subsection \<open>The file system\<close>

lemma parent_dir_join:
  assumes "CHR ''/'' \<notin> set name"
  shows "parent_dir (d @ ''/'' @ name) = d"
proof -
  have "dropWhile (\<lambda>c. c \<noteq> CHR ''/'') (rev name @ CHR ''/'' # rev d) = CHR ''/'' # rev d"
    using assms by (auto simp add: dropWhile_append3)
  then show ?thesis
    by (simp add: parent_dir_def)
qed

lemma parent_dir_outputs:
  "parent_dir plan_path = ''marketing_outputs''" "parent_dir blog_path = ''marketing_outputs''"
  using parent_dir_join [of "''marketing_plan.md''" "''marketing_outputs''"]
        parent_dir_join [of "''blog_post.md''" "''marketing_outputs''"]
  by (simp_all add: plan_path_def blog_path_def)

lemma output_paths:
  "''marketing_outputs'' @ ''/marketing_plan.md'' = plan_path"
  "''marketing_outputs'' @ ''/blog_post.md'' = blog_path"
  "plan_path \<noteq> ''marketing_outputs''" "blog_path \<noteq> ''marketing_outputs''"
  "plan_path \<noteq> blog_path"
  by (simp_all add: plan_path_def blog_path_def)

lemma py_open_w_ok:
  "can_open fs p \<Longrightarrow> py_open_w fs p = Inr (fs\<lparr>fs_files := (fs_files fs)(p \<mapsto> [])\<rparr>)"
  by (auto simp add: can_open_def py_open_w_def)

lemma py_open_w_fails:
  "\<not> can_open fs p \<Longrightarrow> isl (py_open_w fs p)"
  by (auto simp add: can_open_def py_open_w_def)

lemma save_markdown_ok:
  assumes "can_open fs p" "c ''company_type'' = Some ct" "c ''industry'' = Some ind"
  shows "save_markdown fs p heading c body =
           (Inr (), fs\<lparr>fs_files := (fs_files fs)(p \<mapsto> file_text heading ct ind body)\<rparr>)"
  using assms
  by (simp add: save_markdown_def py_open_w_ok getitem_Some py_write_def Let_def file_text_def)

lemma save_markdown_fails:
  assumes "\<not> can_open fs p"
  shows "isl (fst (save_markdown fs p heading c body))
         \<and> snd (save_markdown fs p heading c body) = fs"
  using py_open_w_fails [OF assms]
  by (cases "py_open_w fs p") (simp_all add: save_markdown_def)

lemma os_makedirs_ok:
  "can_makedirs fs d \<Longrightarrow> os_makedirs fs d = Inr (fs\<lparr>fs_dirs := insert d (fs_dirs fs)\<rparr>)"
  by (auto simp add: can_makedirs_def os_makedirs_def insert_absorb)

lemma os_makedirs_fails:
  "\<not> can_makedirs fs d \<Longrightarrow> isl (os_makedirs fs d)"
  by (auto simp add: can_makedirs_def os_makedirs_def)

lemma save_outputs_ok:
  assumes "outputs_writable fs" "c ''company_type'' = Some ct" "c ''industry'' = Some ind"
  shows "save_outputs fs c plan blog =
           (Inr \<lparr>marketing_plan = plan, blog_content = blog, result_context = c,
                 status = ''success'',
                 files = [''marketing_plan'' \<mapsto> plan_path, ''blog_post'' \<mapsto> blog_path]\<rparr>,
            fs\<lparr>fs_dirs := insert ''marketing_outputs'' (fs_dirs fs),
               fs_files := (fs_files fs)
                 (plan_path \<mapsto> file_text ''# Marketing Plan'' ct ind plan,
                  blog_path \<mapsto> file_text ''# Blog Post'' ct ind blog)\<rparr>)"
proof -
  let ?fs1 = "fs\<lparr>fs_dirs := insert ''marketing_outputs'' (fs_dirs fs)\<rparr>"
  let ?fs2 = "?fs1\<lparr>fs_files := (fs_files ?fs1)
                 (plan_path \<mapsto> file_text ''# Marketing Plan'' ct ind plan)\<rparr>"
  have mk: "os_makedirs fs ''marketing_outputs'' = Inr ?fs1"
    using assms(1) by (simp add: outputs_writable_def os_makedirs_ok)
  have o1: "can_open ?fs1 plan_path"
    using assms(1) output_paths(3)
    by (simp add: can_open_def outputs_writable_def parent_dir_outputs)
  have o2: "can_open ?fs2 blog_path"
    using assms(1) output_paths(4)
    by (simp add: can_open_def outputs_writable_def parent_dir_outputs)
  have s1: "save_markdown ?fs1 plan_path ''# Marketing Plan'' c plan = (Inr (), ?fs2)"
    using save_markdown_ok [OF o1 assms(2,3)] .
  have s2: "save_markdown ?fs2 blog_path ''# Blog Post'' c blog =
              (Inr (), ?fs2\<lparr>fs_files := (fs_files ?fs2)
                          (blog_path \<mapsto> file_text ''# Blog Post'' ct ind blog)\<rparr>)"
    using save_markdown_ok [OF o2 assms(2,3)] .
  have "save_outputs fs c plan blog =
          (Inr \<lparr>marketing_plan = plan, blog_content = blog, result_context = c,
                status = ''success'',
                files = [''marketing_plan'' \<mapsto> plan_path, ''blog_post'' \<mapsto> blog_path]\<rparr>,
           ?fs2\<lparr>fs_files := (fs_files ?fs2)
                   (blog_path \<mapsto> file_text ''# Blog Post'' ct ind blog)\<rparr>)"
    unfolding save_outputs_def Let_def output_paths(1,2) mk
    by (simp only: sum.case s1 prod.case s2)
  then show ?thesis
    by simp
qed

lemma save_outputs_fails:
  assumes "\<not> outputs_writable fs"
  shows "isl (fst (save_outputs fs c plan blog))"
proof (cases "can_makedirs fs ''marketing_outputs''")
  case False
  then show ?thesis
    using os_makedirs_fails [OF False]
    by (cases "os_makedirs fs ''marketing_outputs''") (simp_all add: save_outputs_def)
next
  case True
  let ?fs1 = "fs\<lparr>fs_dirs := insert ''marketing_outputs'' (fs_dirs fs)\<rparr>"
  have mk: "os_makedirs fs ''marketing_outputs'' = Inr ?fs1"
    using True by (simp add: os_makedirs_ok)
  show ?thesis
  proof (cases "can_open ?fs1 plan_path")
    case False
    from save_markdown_fails [OF False, of "''# Marketing Plan''" c plan]
    show ?thesis
      unfolding save_outputs_def Let_def output_paths(1,2) mk
      by (auto split: prod.splits sum.splits)
  next
    case open1: True
    obtain r2 fs2 where s1: "save_markdown ?fs1 plan_path ''# Marketing Plan'' c plan = (r2, fs2)"
      by (cases "save_markdown ?fs1 plan_path ''# Marketing Plan'' c plan")
    show ?thesis
    proof (cases r2)
      case (Inl e)
      then show ?thesis
        unfolding save_outputs_def Let_def output_paths(1,2) mk using s1 by simp
    next
      case (Inr u)
      have same: "fs_dirs fs2 = fs_dirs ?fs1 \<and> fs_denied fs2 = fs_denied ?fs1"
        using s1 Inr open1
        by (auto simp add: save_markdown_def py_open_w_ok py_write_def Let_def
                 split: sum.splits)
      have "\<not> can_open fs2 blog_path"
        using assms True open1 output_paths(3,4) same
        by (auto simp add: can_open_def outputs_writable_def parent_dir_outputs)
      from save_markdown_fails [OF this, of "''# Blog Post''" c blog]
      show ?thesis
        unfolding save_outputs_def Let_def output_paths(1,2) mk using s1 Inr
        by (auto split: prod.splits sum.splits)
    qed
  qed
qed

subsection \<open>The test doubles\<close>

lemma stub_replies:
  "planner_reply (stub_client text) cc req = Inr (Run [Message [MessagePart text]])"
  "writer_reply (stub_client text) cc plan = Inr (Run [Message [MessagePart text]])"
  "planner_reply empty_output_client cc req = Inr (Run [])"
  "writer_reply empty_output_client cc plan = Inr (Run [])"
  "planner_reply refusing_client cc req = Inl (RemoteInvocationError ''connection refused'')"
  "writer_reply refusing_client cc plan = Inl (RemoteInvocationError ''connection refused'')"
  using planner_input_total [of cc req] writer_input_total [of plan cc]
  by (auto simp add: planner_reply_def writer_reply_def stub_client_def empty_output_client_def
        refusing_client_def bindE_Inr)

lemma stub_texts:
  "\<not> empty_response (Run [Message [MessagePart text]])"
  "first_text (Run [Message [MessagePart text]]) = text"
  "empty_response (Run [])"
  by (simp_all add: empty_response_def first_text_def)

lemma fs_empty_writable: "outputs_writable fs_empty"
  by (simp add: outputs_writable_def can_makedirs_def fs_empty_def)

lemma fs_blog_denied_not_writable: "\<not> outputs_writable fs_blog_denied"
  by (simp add: outputs_writable_def fs_blog_denied_def)

lemma run_agents:
  "map call_agent (calls (run_marketing_workflow planner writer fs cc req)) =
     (case planner_reply planner cc req of
        Inl e \<Rightarrow> [''marketing_planner'']
      | Inr r1 \<Rightarrow>
          if empty_response r1 then [''marketing_planner'']
          else [''marketing_planner'', ''supervisor_agent''])"
proof (cases "planner_reply planner cc req")
  case (Inl e)
  then show ?thesis
    using run_planner_raises [OF Inl, of writer fs] by (auto simp add: planner_call_def)
next
  case (Inr r1)
  show ?thesis
  proof (cases "empty_response r1")
    case True
    then show ?thesis
      using run_planner_empty [OF Inr True, of writer fs] Inr
      by (auto simp add: planner_call_def)
  next
    case False
    show ?thesis
    proof (cases "writer_reply writer cc (first_text r1)")
      case (Inl e)
      then show ?thesis
        using run_writer_raises [OF Inr False Inl, of fs] Inr False
        by (auto simp add: planner_call_def writer_call_def)
    next
      case r2: (Inr r2)
      show ?thesis
      proof (cases "empty_response r2")
        case True
        then show ?thesis
          using run_writer_empty [OF Inr False r2 True, of fs] Inr False
          by (auto simp add: planner_call_def writer_call_def)
      next
        case nonempty: False
        then show ?thesis
          using run_both_texts [OF Inr False r2 nonempty, of fs] Inr False
          by (auto simp add: planner_call_def writer_call_def)
      qed
    qed
  qed
qed

lemma run_fs_unchanged:
  assumes "isl (planner_reply planner cc req)
           \<or> (\<exists>r1. planner_reply planner cc req = Inr r1 \<and> empty_response r1)
           \<or> (\<exists>r1. planner_reply planner cc req = Inr r1 \<and> \<not> empty_response r1
                 \<and> (isl (writer_reply writer cc (first_text r1))
                      \<or> (\<exists>r2. writer_reply writer cc (first_text r1) = Inr r2
                               \<and> empty_response r2)))"
  shows "fs_after (run_marketing_workflow planner writer fs cc req) = fs
         \<and> isl (returned (run_marketing_workflow planner writer fs cc req))"
proof -
  consider
      (planner_error) e where "planner_reply planner cc req = Inl e"
    | (planner_empty) r1 where "planner_reply planner cc req = Inr r1" "empty_response r1"
    | (writer_error) r1 e where "planner_reply planner cc req = Inr r1" "\<not> empty_response r1"
        "writer_reply writer cc (first_text r1) = Inl e"
    | (writer_empty) r1 r2 where "planner_reply planner cc req = Inr r1" "\<not> empty_response r1"
        "writer_reply writer cc (first_text r1) = Inr r2" "empty_response r2"
    using assms by (auto simp add: isl_def)
  then show ?thesis
  proof cases
    case planner_error
    then show ?thesis using run_planner_raises [of planner cc req e writer fs] by auto
  next
    case planner_empty
    then show ?thesis using run_planner_empty [of planner cc req r1 writer fs] by auto
  next
    case writer_error
    then show ?thesis using run_writer_raises [of planner cc req r1 writer e fs] by auto
  next
    case writer_empty
    then show ?thesis using run_writer_empty [of planner cc req r1 writer r2 fs] by auto
  qed
qed

section \<open>The claims\<close>

text \<open>
  C1. In sequential mode the writer stage (agent \<^verbatim>\<open>supervisor_agent\<close>) is invoked only
  after the planner's response has been received and found non-empty. When the
  planner's response has no output entries, or its first entry has no parts, the run
  raises and the log of calls holds the planner's call alone; and whenever the log
  holds a call to \<^verbatim>\<open>supervisor_agent\<close>, the planner answered with a non-empty response
  and the log is the planner's call followed by the writer's.
\<close>

theorem writer_only_after_validated_plan:
  "(planner_reply planner cc req = Inr r \<and> empty_response r \<longrightarrow>
      returned (run_marketing_workflow planner writer fs cc req) =
        Inl (ValueError ''No output received from marketing planner'')
      \<and> map call_agent (calls (run_marketing_workflow planner writer fs cc req)) =
          [''marketing_planner''])
   \<and> (''supervisor_agent''
         \<in> set (map call_agent (calls (run_marketing_workflow planner writer fs cc req))) \<longrightarrow>
       (\<exists>r1. planner_reply planner cc req = Inr r1 \<and> \<not> empty_response r1)
       \<and> map call_agent (calls (run_marketing_workflow planner writer fs cc req)) =
           [''marketing_planner'', ''supervisor_agent''])"
proof (intro conjI impI)
  assume "planner_reply planner cc req = Inr r \<and> empty_response r"
  then show "returned (run_marketing_workflow planner writer fs cc req) =
        Inl (ValueError ''No output received from marketing planner'')"
    using run_planner_empty [of planner cc req r writer fs] by auto
next
  assume "planner_reply planner cc req = Inr r \<and> empty_response r"
  then show "map call_agent (calls (run_marketing_workflow planner writer fs cc req)) =
          [''marketing_planner'']"
    by (simp add: run_agents)
next
  assume "''supervisor_agent''
         \<in> set (map call_agent (calls (run_marketing_workflow planner writer fs cc req)))"
  then show "\<exists>r1. planner_reply planner cc req = Inr r1 \<and> \<not> empty_response r1"
    unfolding run_agents by (auto split: sum.splits if_splits)
next
  assume "''supervisor_agent''
         \<in> set (map call_agent (calls (run_marketing_workflow planner writer fs cc req)))"
  then show "map call_agent (calls (run_marketing_workflow planner writer fs cc req)) =
           [''marketing_planner'', ''supervisor_agent'']"
    unfolding run_agents by (auto split: sum.splits if_splits)
qed

theorem writer_only_after_validated_plan_witness:
  "returned (run_marketing_workflow empty_output_client (stub_client ''BLOG_Y'') fs_empty None None)
     = Inl (ValueError ''No output received from marketing planner'')
   \<and> map call_agent
       (calls (run_marketing_workflow empty_output_client (stub_client ''BLOG_Y'') fs_empty None None))
     = [''marketing_planner'']
   \<and> ''supervisor_agent''
       \<in> set (map call_agent (calls
           (run_marketing_workflow (stub_client ''PLAN_X'') (stub_client ''BLOG_Y'') fs_empty None None)))
   \<and> map call_agent
       (calls (run_marketing_workflow (stub_client ''PLAN_X'') (stub_client ''BLOG_Y'') fs_empty None None))
     = [''marketing_planner'', ''supervisor_agent'']"
proof -
  have called: "''supervisor_agent''
       \<in> set (map call_agent (calls
           (run_marketing_workflow (stub_client ''PLAN_X'') (stub_client ''BLOG_Y'') fs_empty None None)))"
    by (simp add: run_agents stub_replies stub_texts)
  from writer_only_after_validated_plan
          [where planner = empty_output_client and writer = "stub_client ''BLOG_Y''"
             and fs = fs_empty and cc = None and req = None and r = "Run []"]
  have "returned (run_marketing_workflow empty_output_client (stub_client ''BLOG_Y'') fs_empty None None)
     = Inl (ValueError ''No output received from marketing planner'')
   \<and> map call_agent
       (calls (run_marketing_workflow empty_output_client (stub_client ''BLOG_Y'') fs_empty None None))
     = [''marketing_planner'']"
    by (simp add: stub_replies stub_texts)
  moreover from called writer_only_after_validated_plan
          [where planner = "stub_client ''PLAN_X''" and writer = "stub_client ''BLOG_Y''"
             and fs = fs_empty and cc = None and req = None]
  have "map call_agent
       (calls (run_marketing_workflow (stub_client ''PLAN_X'') (stub_client ''BLOG_Y'') fs_empty None None))
     = [''marketing_planner'', ''supervisor_agent'']"
    by blast
  ultimately show ?thesis
    using called by blast
qed

text \<open>
  C9. In sequential mode no output file is created or written unless both stages have
  succeeded: a run that changes the file system had a non-empty answer from the
  planner and from the writer; and when the writer stage fails, by a remote error or by
  an empty output, the run raises and leaves the file system as it was, so the plan
  that was generated is not saved.
\<close>

theorem no_files_unless_both_stages_succeed:
  "(fs_after (run_marketing_workflow planner writer fs cc req) \<noteq> fs \<longrightarrow>
      (\<exists>r1 r2. planner_reply planner cc req = Inr r1 \<and> \<not> empty_response r1
          \<and> writer_reply writer cc (first_text r1) = Inr r2 \<and> \<not> empty_response r2))
   \<and> (planner_reply planner cc req = Inr r \<and> \<not> empty_response r
        \<and> (isl (writer_reply writer cc (first_text r))
             \<or> (\<exists>r2. writer_reply writer cc (first_text r) = Inr r2 \<and> empty_response r2)) \<longrightarrow>
        fs_after (run_marketing_workflow planner writer fs cc req) = fs
        \<and> isl (returned (run_marketing_workflow planner writer fs cc req)))"
proof (intro conjI impI)
  assume changed: "fs_after (run_marketing_workflow planner writer fs cc req) \<noteq> fs"
  show "\<exists>r1 r2. planner_reply planner cc req = Inr r1 \<and> \<not> empty_response r1
          \<and> writer_reply writer cc (first_text r1) = Inr r2 \<and> \<not> empty_response r2"
  proof (rule ccontr)
    assume none: "\<not> ?thesis"
    have "isl (planner_reply planner cc req)
           \<or> (\<exists>r1. planner_reply planner cc req = Inr r1 \<and> empty_response r1)
           \<or> (\<exists>r1. planner_reply planner cc req = Inr r1 \<and> \<not> empty_response r1
                 \<and> (isl (writer_reply writer cc (first_text r1))
                      \<or> (\<exists>r2. writer_reply writer cc (first_text r1) = Inr r2
                               \<and> empty_response r2)))"
    proof (cases "planner_reply planner cc req")
      case (Inl e)
      then show ?thesis by simp
    next
      case (Inr r1)
      with none show ?thesis
        by (cases "writer_reply writer cc (first_text r1)") auto
    qed
    from run_fs_unchanged [OF this] changed show False by simp
  qed
next
  assume "planner_reply planner cc req = Inr r \<and> \<not> empty_response r
        \<and> (isl (writer_reply writer cc (first_text r))
             \<or> (\<exists>r2. writer_reply writer cc (first_text r) = Inr r2 \<and> empty_response r2))"
  then have "isl (planner_reply planner cc req)
           \<or> (\<exists>r1. planner_reply planner cc req = Inr r1 \<and> empty_response r1)
           \<or> (\<exists>r1. planner_reply planner cc req = Inr r1 \<and> \<not> empty_response r1
                 \<and> (isl (writer_reply writer cc (first_text r1))
                      \<or> (\<exists>r2. writer_reply writer cc (first_text r1) = Inr r2
                               \<and> empty_response r2)))"
    by blast
  from run_fs_unchanged [OF this]
  show "fs_after (run_marketing_workflow planner writer fs cc req) = fs"
    and "isl (returned (run_marketing_workflow planner writer fs cc req))"
    by simp_all
qed

theorem no_files_unless_both_stages_succeed_witness:
  "fs_after (run_marketing_workflow (stub_client ''PLAN_X'') empty_output_client fs_empty None None)
     = fs_empty
   \<and> isl (returned
       (run_marketing_workflow (stub_client ''PLAN_X'') empty_output_client fs_empty None None))
   \<and> fs_after (run_marketing_workflow (stub_client ''PLAN_X'') refusing_client fs_empty None None)
     = fs_empty
   \<and> fs_after (run_marketing_workflow (stub_client ''PLAN_X'') (stub_client ''BLOG_Y'') fs_empty None None)
     \<noteq> fs_empty
   \<and> (\<exists>r1 r2. planner_reply (stub_client ''PLAN_X'') None None = Inr r1 \<and> \<not> empty_response r1
          \<and> writer_reply (stub_client ''BLOG_Y'') None (first_text r1) = Inr r2
          \<and> \<not> empty_response r2)"
proof -
  have keys: "merge_context None ''company_type'' = Some (PStr ''AI startup'')"
    "merge_context None ''industry'' = Some (PStr ''Marketing Technology'')"
    by (simp_all add: merge_context_lookup default_lookup)
  have "fs_after
          (run_marketing_workflow (stub_client ''PLAN_X'') (stub_client ''BLOG_Y'') fs_empty None None)
        = snd (save_outputs fs_empty (merge_context None) ''PLAN_X'' ''BLOG_Y'')"
    using run_both_texts [of "stub_client ''PLAN_X''" None None
            "Run [Message [MessagePart ''PLAN_X'']]" "stub_client ''BLOG_Y''"
            "Run [Message [MessagePart ''BLOG_Y'']]" fs_empty]
    by (auto simp add: stub_replies stub_texts)
  moreover have "fs_dirs (snd (save_outputs fs_empty (merge_context None) ''PLAN_X'' ''BLOG_Y''))
        = {''marketing_outputs''}"
    unfolding save_outputs_ok [OF fs_empty_writable keys] by (simp add: fs_empty_def)
  ultimately have "fs_dirs (fs_after
          (run_marketing_workflow (stub_client ''PLAN_X'') (stub_client ''BLOG_Y'') fs_empty None None))
        = {''marketing_outputs''}"
    by simp
  moreover have "fs_dirs fs_empty = {}"
    by (simp add: fs_empty_def)
  ultimately have dirs_differ: "fs_dirs (fs_after
          (run_marketing_workflow (stub_client ''PLAN_X'') (stub_client ''BLOG_Y'') fs_empty None None))
        \<noteq> fs_dirs fs_empty"
    by simp
  have changed:
    "fs_after (run_marketing_workflow (stub_client ''PLAN_X'') (stub_client ''BLOG_Y'') fs_empty None None)
       \<noteq> fs_empty"
  proof
    assume "fs_after
        (run_marketing_workflow (stub_client ''PLAN_X'') (stub_client ''BLOG_Y'') fs_empty None None)
          = fs_empty"
    then have "fs_dirs (fs_after
          (run_marketing_workflow (stub_client ''PLAN_X'') (stub_client ''BLOG_Y'') fs_empty None None))
        = fs_dirs fs_empty"
      by (rule arg_cong)
    with dirs_differ show False ..
  qed
  from no_files_unless_both_stages_succeed
          [where planner = "stub_client ''PLAN_X''" and writer = empty_output_client
             and fs = fs_empty and cc = None and req = None
             and r = "Run [Message [MessagePart ''PLAN_X'']]"]
  have empty: "fs_after
        (run_marketing_workflow (stub_client ''PLAN_X'') empty_output_client fs_empty None None)
          = fs_empty
      \<and> isl (returned
        (run_marketing_workflow (stub_client ''PLAN_X'') empty_output_client fs_empty None None))"
    by (simp add: stub_replies stub_texts)
  from no_files_unless_both_stages_succeed
          [where planner = "stub_client ''PLAN_X''" and writer = refusing_client
             and fs = fs_empty and cc = None and req = None
             and r = "Run [Message [MessagePart ''PLAN_X'']]"]
  have refused: "fs_after
        (run_marketing_workflow (stub_client ''PLAN_X'') refusing_client fs_empty None None)
          = fs_empty"
    by (simp add: stub_replies stub_texts)
  have "fs_after (run_marketing_workflow (stub_client ''PLAN_X'') (stub_client ''BLOG_Y'') fs_empty None None)
       \<noteq> fs_empty \<longrightarrow>
      (\<exists>r1 r2. planner_reply (stub_client ''PLAN_X'') None None = Inr r1 \<and> \<not> empty_response r1
          \<and> writer_reply (stub_client ''BLOG_Y'') None (first_text r1) = Inr r2
          \<and> \<not> empty_response r2)"
    by (rule conjunct1 [OF no_files_unless_both_stages_succeed
          [where planner = "stub_client ''PLAN_X''" and writer = "stub_client ''BLOG_Y''"
             and fs = fs_empty and cc = None and req = None]])
  then have both: "\<exists>r1 r2. planner_reply (stub_client ''PLAN_X'') None None = Inr r1 \<and> \<not> empty_response r1
          \<and> writer_reply (stub_client ''BLOG_Y'') None (first_text r1) = Inr r2
          \<and> \<not> empty_response r2"
    using changed by (rule mp)
  show ?thesis
    by (rule conjI [OF conjunct1 [OF empty] conjI [OF conjunct2 [OF empty]
          conjI [OF refused conjI [OF changed both]]]])
qed

text \<open>
  C6. At each stage, a response with no output entries, or whose first output entry
  has no parts, makes the stage fail with the \<^verbatim>\<open>ValueError\<close> of that stage (the
  empty-output error); otherwise the text of the first part of the first output entry
  is what the stage yields: the planner's text goes into the writer's prompt and into
  \<^verbatim>\<open>marketing_plan\<close>, the writer's text into \<^verbatim>\<open>blog_content\<close>.
\<close>

theorem stage_validation:
  "first_part_content msg r =
     (if run_output r = [] \<or> parts (hd (run_output r)) = [] then Inl (ValueError msg)
      else Inr (content (hd (parts (hd (run_output r))))))
   \<and> (planner_reply planner cc req = Inr rp \<and> empty_response rp \<longrightarrow>
        returned (run_marketing_workflow planner writer fs cc req) =
          Inl (ValueError ''No output received from marketing planner''))
   \<and> (planner_reply planner cc req = Inr rp \<and> \<not> empty_response rp \<longrightarrow>
        (\<exists>pin win. create_writer_input (first_text rp) (merge_context cc) = Inr win
           \<and> calls (run_marketing_workflow planner writer fs cc req) =
               [planner_call pin, writer_call win]))
   \<and> (planner_reply planner cc req = Inr rp \<and> \<not> empty_response rp
        \<and> writer_reply writer cc (first_text rp) = Inr rw \<and> empty_response rw \<longrightarrow>
        returned (run_marketing_workflow planner writer fs cc req) =
          Inl (ValueError ''No output received from blog writer''))
   \<and> (planner_reply planner cc req = Inr rp \<and> \<not> empty_response rp
        \<and> writer_reply writer cc (first_text rp) = Inr rw \<and> \<not> empty_response rw
        \<and> outputs_writable fs \<longrightarrow>
        (\<exists>res. returned (run_marketing_workflow planner writer fs cc req) = Inr res
           \<and> marketing_plan res = first_text rp \<and> blog_content res = first_text rw))"
proof (intro conjI impI)
  show "first_part_content msg r =
     (if run_output r = [] \<or> parts (hd (run_output r)) = [] then Inl (ValueError msg)
      else Inr (content (hd (parts (hd (run_output r))))))"
    by (auto simp add: first_part_content_def split: list.splits)
next
  assume "planner_reply planner cc req = Inr rp \<and> empty_response rp"
  then show "returned (run_marketing_workflow planner writer fs cc req) =
          Inl (ValueError ''No output received from marketing planner'')"
    using run_planner_empty [of planner cc req rp writer fs] by auto
next
  assume a: "planner_reply planner cc req = Inr rp \<and> \<not> empty_response rp"
  obtain pin where pin: "create_planner_input (merge_context cc) req = Inr pin"
    using planner_input_total by blast
  obtain win where win: "create_writer_input (first_text rp) (merge_context cc) = Inr win"
    using writer_input_total by blast
  have p: "planner ''marketing_planner'' pin = Inr rp"
    using a by (simp add: planner_reply_def pin bindE_Inr)
  have "calls (run_marketing_workflow planner writer fs cc req) =
          [planner_call pin, writer_call win]"
    using a
    by (auto simp add: run_marketing_workflow_def pin p bindE_Inr first_part_content_text
          writing_phase_def win planner_call_def writer_call_def Let_def
          split: sum.splits prod.splits)
  with win show "\<exists>pin win. create_writer_input (first_text rp) (merge_context cc) = Inr win
           \<and> calls (run_marketing_workflow planner writer fs cc req) =
               [planner_call pin, writer_call win]"
    by blast
next
  assume "planner_reply planner cc req = Inr rp \<and> \<not> empty_response rp
        \<and> writer_reply writer cc (first_text rp) = Inr rw \<and> empty_response rw"
  then show "returned (run_marketing_workflow planner writer fs cc req) =
          Inl (ValueError ''No output received from blog writer'')"
    using run_writer_empty [of planner cc req rp writer rw fs] by auto
next
  assume a: "planner_reply planner cc req = Inr rp \<and> \<not> empty_response rp
        \<and> writer_reply writer cc (first_text rp) = Inr rw \<and> \<not> empty_response rw
        \<and> outputs_writable fs"
  obtain ct ind where keys: "merge_context cc ''company_type'' = Some ct"
      "merge_context cc ''industry'' = Some ind"
    using merged_keys [of cc] by metis
  from a have w: "outputs_writable fs" by simp
  from a run_both_texts [of planner cc req rp writer rw fs]
  have "returned (run_marketing_workflow planner writer fs cc req) =
          fst (save_outputs fs (merge_context cc) (first_text rp) (first_text rw))"
    by auto
  then show "\<exists>res. returned (run_marketing_workflow planner writer fs cc req) = Inr res
           \<and> marketing_plan res = first_text rp \<and> blog_content res = first_text rw"
    by (simp add: save_outputs_ok [OF w keys])
qed

theorem stage_validation_witness:
  "returned (run_marketing_workflow (stub_client ''PLAN_X'') empty_output_client fs_empty None None)
     = Inl (ValueError ''No output received from blog writer'')
   \<and> returned (run_marketing_workflow empty_output_client (stub_client ''BLOG_Y'') fs_empty None None)
     = Inl (ValueError ''No output received from marketing planner'')
   \<and> (\<exists>res. returned
         (run_marketing_workflow (stub_client ''PLAN_X'') (stub_client ''BLOG_Y'') fs_empty None None)
           = Inr res
         \<and> marketing_plan res = ''PLAN_X'' \<and> blog_content res = ''BLOG_Y'')"
  using stage_validation
          [where planner = "stub_client ''PLAN_X''" and writer = empty_output_client
             and fs = fs_empty and cc = None and req = None
             and rp = "Run [Message [MessagePart ''PLAN_X'']]" and rw = "Run []"]
        stage_validation
          [where planner = empty_output_client and writer = "stub_client ''BLOG_Y''"
             and fs = fs_empty and cc = None and req = None and rp = "Run []"]
        stage_validation
          [where planner = "stub_client ''PLAN_X''" and writer = "stub_client ''BLOG_Y''"
             and fs = fs_empty and cc = None and req = None
             and rp = "Run [Message [MessagePart ''PLAN_X'']]"
             and rw = "Run [Message [MessagePart ''BLOG_Y'']]"]
  by (simp add: stub_replies stub_texts fs_empty_writable)

text \<open>
  C5. For every merged context, when the planner stage returns the text \<open>plan\<close> and
  the writer stage the text \<open>blog\<close> (\<^verbatim>\<open>"PLAN_X"\<close> and \<^verbatim>\<open>"BLOG_Y"\<close> in the witness), and
  the output directory and the two files can be written, the sequential workflow
  returns \<^verbatim>\<open>marketing_plan == plan\<close>, \<^verbatim>\<open>blog_content == blog\<close>,
  \<^verbatim>\<open>status == "success"\<close>, and leaves \<^verbatim>\<open>marketing_plan.md\<close> and \<^verbatim>\<open>blog_post.md\<close>, each
  holding the stage's text after a header with the context's company type and
  industry.
\<close>

theorem plan_and_blog_returned_and_saved:
  assumes "planner_reply planner cc req = Inr rp" "\<not> empty_response rp" "first_text rp = plan"
    and "writer_reply writer cc plan = Inr rw" "\<not> empty_response rw" "first_text rw = blog"
    and "outputs_writable fs"
  shows "\<exists>ct ind. merge_context cc ''company_type'' = Some ct
           \<and> merge_context cc ''industry'' = Some ind
           \<and> returned (run_marketing_workflow planner writer fs cc req) =
               Inr \<lparr>marketing_plan = plan, blog_content = blog,
                    result_context = merge_context cc, status = ''success'',
                    files = [''marketing_plan'' \<mapsto> ''marketing_outputs/marketing_plan.md'',
                             ''blog_post'' \<mapsto> ''marketing_outputs/blog_post.md'']\<rparr>
           \<and> fs_files (fs_after (run_marketing_workflow planner writer fs cc req))
                 ''marketing_outputs/marketing_plan.md'' =
               Some (''# Marketing Plan'' @ nl @ nl @ ''**Company:** '' @ py_str ct @ nl
                       @ ''**Industry:** '' @ py_str ind @ nl @ nl @ plan)
           \<and> fs_files (fs_after (run_marketing_workflow planner writer fs cc req))
                 ''marketing_outputs/blog_post.md'' =
               Some (''# Blog Post'' @ nl @ nl @ ''**Company:** '' @ py_str ct @ nl
                       @ ''**Industry:** '' @ py_str ind @ nl @ nl @ blog)"
proof -
  obtain ct ind where keys: "merge_context cc ''company_type'' = Some ct"
      "merge_context cc ''industry'' = Some ind"
    using merged_keys [of cc] by metis
  from assms(4) have w: "writer_reply writer cc (first_text rp) = Inr rw"
    by (simp add: assms(3))
  from run_both_texts [OF assms(1,2) w assms(5), of fs]
  have out: "returned (run_marketing_workflow planner writer fs cc req) =
               fst (save_outputs fs (merge_context cc) plan blog)"
       "fs_after (run_marketing_workflow planner writer fs cc req) =
               snd (save_outputs fs (merge_context cc) plan blog)"
    by (auto simp add: assms(3,6))
  have "returned (run_marketing_workflow planner writer fs cc req) =
               Inr \<lparr>marketing_plan = plan, blog_content = blog,
                    result_context = merge_context cc, status = ''success'',
                    files = [''marketing_plan'' \<mapsto> ''marketing_outputs/marketing_plan.md'',
                             ''blog_post'' \<mapsto> ''marketing_outputs/blog_post.md'']\<rparr>"
    by (simp add: out save_outputs_ok [OF assms(7) keys] plan_path_def blog_path_def)
  moreover have "fs_files (fs_after (run_marketing_workflow planner writer fs cc req))
                 ''marketing_outputs/marketing_plan.md'' =
               Some (''# Marketing Plan'' @ nl @ nl @ ''**Company:** '' @ py_str ct @ nl
                       @ ''**Industry:** '' @ py_str ind @ nl @ nl @ plan)"
    using output_paths(5)
    by (simp add: out save_outputs_ok [OF assms(7) keys] plan_path_def blog_path_def
          file_text_def)
  moreover have "fs_files (fs_after (run_marketing_workflow planner writer fs cc req))
                 ''marketing_outputs/blog_post.md'' =
               Some (''# Blog Post'' @ nl @ nl @ ''**Company:** '' @ py_str ct @ nl
                       @ ''**Industry:** '' @ py_str ind @ nl @ nl @ blog)"
    by (simp add: out save_outputs_ok [OF assms(7) keys] plan_path_def blog_path_def
          file_text_def)
  ultimately show ?thesis
    using keys by blast
qed

theorem plan_and_blog_returned_and_saved_witness:
  "returned (run_marketing_workflow (stub_client ''PLAN_X'') (stub_client ''BLOG_Y'') fs_empty None None)
     = Inr \<lparr>marketing_plan = ''PLAN_X'', blog_content = ''BLOG_Y'',
            result_context = merge_context None, status = ''success'',
            files = [''marketing_plan'' \<mapsto> ''marketing_outputs/marketing_plan.md'',
                     ''blog_post'' \<mapsto> ''marketing_outputs/blog_post.md'']\<rparr>
   \<and> fs_files (fs_after
        (run_marketing_workflow (stub_client ''PLAN_X'') (stub_client ''BLOG_Y'') fs_empty None None))
        ''marketing_outputs/marketing_plan.md''
     = Some ''# Marketing Plan\<newline>\<newline>**Company:** AI startup\<newline>**Industry:** Marketing Technology\<newline>\<newline>PLAN_X''
   \<and> fs_files (fs_after
        (run_marketing_workflow (stub_client ''PLAN_X'') (stub_client ''BLOG_Y'') fs_empty None None))
        ''marketing_outputs/blog_post.md''
     = Some ''# Blog Post\<newline>\<newline>**Company:** AI startup\<newline>**Industry:** Marketing Technology\<newline>\<newline>BLOG_Y''"
  using plan_and_blog_returned_and_saved
          [where planner = "stub_client ''PLAN_X''" and writer = "stub_client ''BLOG_Y''"
             and fs = fs_empty and cc = None and req = None
             and rp = "Run [Message [MessagePart ''PLAN_X'']]" and plan = "''PLAN_X''"
             and rw = "Run [Message [MessagePart ''BLOG_Y'']]" and blog = "''BLOG_Y''"]
  by (simp add: stub_replies stub_texts fs_empty_writable merge_context_lookup default_lookup
        nl_def)

text \<open>
  C3, as the code has it. When both stages have succeeded and the output directory
  cannot be made or an output file cannot be opened, the sequential workflow raises
  the error of the file system: no result is returned, and the generated plan and blog
  do not reach the caller. (The claim was that they are still returned.)
\<close>

theorem persistence_failure_raises:
  assumes "planner_reply planner cc req = Inr rp" "\<not> empty_response rp"
    and "writer_reply writer cc (first_text rp) = Inr rw" "\<not> empty_response rw"
    and "\<not> outputs_writable fs"
  shows "isl (returned (run_marketing_workflow planner writer fs cc req))"
  using run_both_texts [OF assms(1-4), of fs] save_outputs_fails [OF assms(5)]
  by auto

theorem persistence_failure_raises_witness:
  "isl (returned
     (run_marketing_workflow (stub_client ''PLAN_X'') (stub_client ''BLOG_Y'') fs_blog_denied None None))"
  using persistence_failure_raises
          [where planner = "stub_client ''PLAN_X''" and writer = "stub_client ''BLOG_Y''"
             and fs = fs_blog_denied and cc = None and req = None
             and rp = "Run [Message [MessagePart ''PLAN_X'']]"
             and rw = "Run [Message [MessagePart ''BLOG_Y'']]"]
  by (simp add: stub_replies stub_texts fs_blog_denied_not_writable)

theorem persistence_failure_counterexample:
  "returned
     (run_marketing_workflow (stub_client ''PLAN_X'') (stub_client ''BLOG_Y'') fs_blog_denied None None)
   = Inl (PermissionError ''marketing_outputs/blog_post.md'')"
proof -
  have keys: "merge_context None ''company_type'' = Some (PStr ''AI startup'')"
    "merge_context None ''industry'' = Some (PStr ''Marketing Technology'')"
    by (simp_all add: merge_context_lookup default_lookup)
  let ?fs1 = "fs_blog_denied\<lparr>fs_dirs := insert ''marketing_outputs'' (fs_dirs fs_blog_denied)\<rparr>"
  let ?fs2 = "?fs1\<lparr>fs_files := (fs_files ?fs1)
      (plan_path \<mapsto> file_text ''# Marketing Plan'' (PStr ''AI startup'')
                      (PStr ''Marketing Technology'') ''PLAN_X'')\<rparr>"
  note ne = output_paths(3-5) output_paths(3-5) [symmetric]
  have mk: "os_makedirs fs_blog_denied ''marketing_outputs'' = Inr ?fs1"
    by (rule os_makedirs_ok) (simp add: can_makedirs_def fs_blog_denied_def ne)
  have o1: "can_open ?fs1 plan_path"
    by (simp add: can_open_def parent_dir_outputs fs_blog_denied_def ne)
  have s1: "save_markdown ?fs1 plan_path ''# Marketing Plan'' (merge_context None) ''PLAN_X''
              = (Inr (), ?fs2)"
    using save_markdown_ok [OF o1 keys] .
  have s2: "save_markdown ?fs2 blog_path ''# Blog Post'' (merge_context None) ''BLOG_Y''
              = (Inl (PermissionError blog_path), ?fs2)"
    by (simp add: save_markdown_def py_open_w_def parent_dir_outputs fs_blog_denied_def ne)
  have "save_outputs fs_blog_denied (merge_context None) ''PLAN_X'' ''BLOG_Y''
          = (Inl (PermissionError blog_path), ?fs2)"
    unfolding save_outputs_def Let_def output_paths(1,2) mk
    by (simp only: sum.case s1 prod.case s2)
  then show ?thesis
    using run_both_texts [of "stub_client ''PLAN_X''" None None
            "Run [Message [MessagePart ''PLAN_X'']]" "stub_client ''BLOG_Y''"
            "Run [Message [MessagePart ''BLOG_Y'']]" fs_blog_denied]
    by (auto simp add: stub_replies stub_texts blog_path_def)
qed

text \<open>
  C2, as the code has it. \<^verbatim>\<open>create_planner_input\<close> reads the five required fields:
  when some are absent it raises the \<^verbatim>\<open>KeyError\<close> that names the first absent one in
  the order company_type, industry, target_audience, value_proposition, key_benefits
  (the absent field itself when only one is absent), and it returns a prompt only when
  none is absent. \<^verbatim>\<open>create_writer_input\<close> reads company_type, industry and
  target_audience only: it raises the \<^verbatim>\<open>KeyError\<close> naming the first absent of these
  three, and returns a prompt whenever the three are present. (The claim was that the
  writer's prompt also fails when value_proposition or key_benefits is absent.)
\<close>

theorem missing_field_named:
  "(missing_fields c required_fields = k # ks \<longrightarrow>
      create_planner_input c req = Inl (KeyError k))
   \<and> (missing_fields c required_fields = [] \<longrightarrow> \<not> isl (create_planner_input c req))
   \<and> (missing_fields c writer_fields = k' # ks' \<longrightarrow>
      create_writer_input plan c = Inl (KeyError k'))
   \<and> (missing_fields c writer_fields = [] \<longrightarrow> \<not> isl (create_writer_input plan c))"
  by (cases "c ''company_type''"; cases "c ''industry''"; cases "c ''target_audience''";
      cases "c ''value_proposition''"; cases "c ''key_benefits''";
      auto simp add: missing_fields_def required_fields_def writer_fields_def
        create_planner_input_def create_writer_input_def bindE_def getitem_def)

theorem missing_field_named_witness:
  "create_planner_input context_without_industry None = Inl (KeyError ''industry'')
   \<and> create_writer_input ''PLAN_X'' context_without_industry = Inl (KeyError ''industry'')
   \<and> create_planner_input context_without_value_proposition None
        = Inl (KeyError ''value_proposition'')
   \<and> \<not> isl (create_planner_input DEFAULT_CONTEXT None)
   \<and> \<not> isl (create_writer_input ''PLAN_X'' DEFAULT_CONTEXT)"
  using missing_field_named
          [where c = context_without_industry and req = None and plan = "''PLAN_X''"
             and k = "''industry''" and ks = "[]" and k' = "''industry''" and ks' = "[]"]
        missing_field_named
          [where c = context_without_value_proposition and req = None
             and k = "''value_proposition''" and ks = "[]"]
        missing_field_named
          [where c = DEFAULT_CONTEXT and req = None and plan = "''PLAN_X''"]
  by (simp add: missing_fields_def required_fields_def writer_fields_def
        context_without_industry_def context_without_value_proposition_def
        DEFAULT_CONTEXT_def)

theorem missing_field_counterexample:
  "context_without_value_proposition ''value_proposition'' = None
   \<and> \<not> isl (create_writer_input ''PLAN_X'' context_without_value_proposition)"
proof -
  have "\<exists>win. create_writer_input ''PLAN_X'' context_without_value_proposition = Inr win"
    by (rule writer_input_keys)
       (simp_all add: context_without_value_proposition_def default_lookup)
  then show ?thesis
    by (auto simp add: context_without_value_proposition_def)
qed

text \<open>
  C7. The merged context is the defaults overridden key by key by the caller's
  entries: a key of the caller's dictionary has the caller's value, every other key its
  default; no dictionary and the empty dictionary give the defaults; and
  \<^verbatim>\<open>{"industry": "FinTech"}\<close> gives the defaults with \<^verbatim>\<open>industry\<close> replaced by
  \<^verbatim>\<open>"FinTech"\<close>.
\<close>

theorem merge_caller_wins:
  "merge_context None = DEFAULT_CONTEXT
   \<and> merge_context (Some Map.empty) = DEFAULT_CONTEXT
   \<and> merge_context (Some c) k = (case c k of None \<Rightarrow> DEFAULT_CONTEXT k | Some v \<Rightarrow> Some v)
   \<and> merge_context (Some [''industry'' \<mapsto> PStr ''FinTech''])
        = DEFAULT_CONTEXT(''industry'' \<mapsto> PStr ''FinTech'')"
  by (auto simp add: merge_context_def map_add_def fun_eq_iff split: option.splits)

text \<open>
  C8. For every directory that exists and every file name, on a file system that lets
  the file be opened, saving twice under the same name with two bodies leaves the
  second text at that path: the second write replaces the first, nothing is appended,
  and no other name appears in the file system.
\<close>

theorem second_write_replaces_first:
  assumes "CHR ''/'' \<notin> set name" and "dir \<in> fs_dirs fs"
    and "dir @ ''/'' @ name \<notin> fs_dirs fs" and "dir @ ''/'' @ name \<notin> fs_denied fs"
    and "c ''company_type'' = Some ct" and "c ''industry'' = Some ind"
  shows "fst (save_markdown fs (dir @ ''/'' @ name) heading c body_old) = Inr ()
    \<and> fs_files (snd (save_markdown fs (dir @ ''/'' @ name) heading c body_old)) (dir @ ''/'' @ name)
        = Some (file_text heading ct ind body_old)
    \<and> fst (save_markdown (snd (save_markdown fs (dir @ ''/'' @ name) heading c body_old))
             (dir @ ''/'' @ name) heading c body_new) = Inr ()
    \<and> fs_files (snd (save_markdown (snd (save_markdown fs (dir @ ''/'' @ name) heading c body_old))
                       (dir @ ''/'' @ name) heading c body_new)) (dir @ ''/'' @ name)
        = Some (file_text heading ct ind body_new)
    \<and> dom (fs_files (snd (save_markdown (snd (save_markdown fs (dir @ ''/'' @ name) heading c body_old))
                            (dir @ ''/'' @ name) heading c body_new)))
        = insert (dir @ ''/'' @ name) (dom (fs_files fs))
    \<and> fs_dirs (snd (save_markdown (snd (save_markdown fs (dir @ ''/'' @ name) heading c body_old))
                      (dir @ ''/'' @ name) heading c body_new))
        = fs_dirs fs"
proof -
  let ?p = "dir @ ''/'' @ name"
  let ?fs1 = "fs\<lparr>fs_files := (fs_files fs)(?p \<mapsto> file_text heading ct ind body_old)\<rparr>"
  have pd: "parent_dir ?p = dir"
    by (rule parent_dir_join [OF assms(1)])
  have o1: "can_open fs ?p"
    unfolding can_open_def pd using assms(2-4) by simp
  have s1: "save_markdown fs ?p heading c body_old = (Inr (), ?fs1)"
    by (rule save_markdown_ok [OF o1 assms(5,6)])
  have o2: "can_open ?fs1 ?p"
    unfolding can_open_def pd using assms(2-4) by simp
  have s2: "save_markdown ?fs1 ?p heading c body_new =
              (Inr (), ?fs1\<lparr>fs_files := (fs_files ?fs1)(?p \<mapsto> file_text heading ct ind body_new)\<rparr>)"
    by (rule save_markdown_ok [OF o2 assms(5,6)])
  show ?thesis
    unfolding s1 snd_conv fst_conv s2 by simp
qed

theorem second_write_replaces_first_witness:
  "fs_files
     (snd (save_markdown
             (snd (save_markdown fs_with_output_dir ''marketing_outputs/blog_post.md''
                     ''# Blog Post'' DEFAULT_CONTEXT ''FIRST''))
             ''marketing_outputs/blog_post.md'' ''# Blog Post'' DEFAULT_CONTEXT ''SECOND''))
     ''marketing_outputs/blog_post.md''
   = Some ''# Blog Post\<newline>\<newline>**Company:** AI startup\<newline>**Industry:** Marketing Technology\<newline>\<newline>SECOND''"
  using second_write_replaces_first
          [where name = "''blog_post.md''" and dir = "''marketing_outputs''"
             and fs = fs_with_output_dir and c = DEFAULT_CONTEXT
             and ct = "PStr ''AI startup''" and ind = "PStr ''Marketing Technology''"
             and heading = "''# Blog Post''" and body_old = "''FIRST''" and body_new = "''SECOND''"]
  by (simp add: fs_with_output_dir_def default_lookup file_text_def nl_def)

text \<open>
  C10. An empty \<^verbatim>\<open>specific_request\<close> behaves as an omitted one: each of the two prompt
  builders that take the request puts its fixed default sentence in place of \<^verbatim>\<open>None\<close>
  and of the empty string alike, so the prompts are the same strings, and so are the
  runs of the two entry points.
\<close>

theorem empty_request_as_omitted:
  "create_planner_input c None = create_planner_input c (Some [])
   \<and> format_input_for_acp_orchestrator c None = format_input_for_acp_orchestrator c (Some [])
   \<and> py_or None planner_default_request = planner_default_request
   \<and> py_or (Some []) planner_default_request = planner_default_request
   \<and> py_or None orchestrator_default_request = orchestrator_default_request
   \<and> py_or (Some []) orchestrator_default_request = orchestrator_default_request
   \<and> run_marketing_workflow planner writer fs cc None
        = run_marketing_workflow planner writer fs cc (Some [])
   \<and> run_marketing_workflow_acp from_acp acpagent_run fs cc None
        = run_marketing_workflow_acp from_acp acpagent_run fs cc (Some [])"
proof -
  have or_eq: "py_or None d = py_or (Some []) d" "py_or None d = d" for d
    by (simp_all add: py_or_def)
  have planner_eq: "create_planner_input c' None = create_planner_input c' (Some [])" for c'
    unfolding create_planner_input_def or_eq(1) ..
  have acp_eq: "format_input_for_acp_orchestrator c' None
                  = format_input_for_acp_orchestrator c' (Some [])" for c'
    unfolding format_input_for_acp_orchestrator_def or_eq(1) ..
  have seq_eq: "run_marketing_workflow planner writer fs cc None
                  = run_marketing_workflow planner writer fs cc (Some [])"
    unfolding run_marketing_workflow_def planner_eq ..
  have disc_eq: "run_marketing_workflow_acp from_acp acpagent_run fs cc None
                  = run_marketing_workflow_acp from_acp acpagent_run fs cc (Some [])"
    unfolding run_marketing_workflow_acp_def acp_eq ..
  from planner_eq acp_eq seq_eq disc_eq or_eq show ?thesis
    by metis
qed

text \<open>
  C4. In discovery mode the claim is that the final text is wrapped as
  \<^verbatim>\<open>marketing_plan\<close> and as \<^verbatim>\<open>blog_content\<close> of a result returned to the caller. The
  function of \<^verbatim>\<open>acp_crew.py\<close> ends after writing \<^verbatim>\<open>blog_post.md\<close>, with no
  \<^verbatim>\<open>return\<close>: whatever the discovery and the calling agent answer, it never returns
  a result, and on the stubbed run below it returns \<^verbatim>\<open>None\<close> after saving the text.
\<close>

theorem discovery_mode_returns_none:
  "fst (run_marketing_workflow_acp from_acp acpagent_run fs cc req) \<noteq> Inr (Some res)
   \<and> run_marketing_workflow_acp stub_discovery (stub_calling_agent ''FINAL_TEXT'') fs_empty
        None None
      = (Inr None,
         \<lparr>fs_dirs = {''marketing_outputs''},
          fs_files = [''marketing_outputs/blog_post.md'' \<mapsto>
            ''**Company:** AI startup\<newline>**Industry:** Marketing Technology\<newline>\<newline>FINAL_TEXT''],
          fs_denied = {}\<rparr>)"
proof
  show "fst (run_marketing_workflow_acp from_acp acpagent_run fs cc req) \<noteq> Inr (Some res)"
    by (simp add: run_marketing_workflow_acp_def Let_def split: sum.splits)
next
  obtain p where p: "format_input_for_acp_orchestrator (merge_context None) None = Inr p"
    using orchestrator_input_total by blast
  have keys: "getitem (merge_context None) ''company_type'' = Inr (PStr ''AI startup'')"
    "getitem (merge_context None) ''industry'' = Inr (PStr ''Marketing Technology'')"
    by (simp_all add: getitem_Some merge_context_lookup default_lookup)
  let ?fs1 = "fs_empty\<lparr>fs_dirs := insert ''marketing_outputs'' (fs_dirs fs_empty)\<rparr>"
  have mk: "os_makedirs fs_empty ''marketing_outputs'' = Inr ?fs1"
    by (rule os_makedirs_ok) (simp add: can_makedirs_def fs_empty_def)
  have "can_open ?fs1 blog_path"
    by (simp add: can_open_def parent_dir_outputs fs_empty_def output_paths(4))
  then have op: "py_open_w ?fs1 (''marketing_outputs'' @ ''/blog_post.md'')
                   = Inr (?fs1\<lparr>fs_files := (fs_files ?fs1)(blog_path \<mapsto> [])\<rparr>)"
    by (simp only: output_paths(2) py_open_w_ok)
  show "run_marketing_workflow_acp stub_discovery (stub_calling_agent ''FINAL_TEXT'') fs_empty
        None None
      = (Inr None,
         \<lparr>fs_dirs = {''marketing_outputs''},
          fs_files = [''marketing_outputs/blog_post.md'' \<mapsto>
            ''**Company:** AI startup\<newline>**Industry:** Marketing Technology\<newline>\<newline>FINAL_TEXT''],
          fs_denied = {}\<rparr>)"
    unfolding run_marketing_workflow_acp_def Let_def stub_discovery_def p bindE_Inr
      stub_calling_agent_def sum.case mk op keys
    by (simp add: py_write_def fs_empty_def blog_path_def nl_def)
qed

end
